theory Spec2Isabelle
  imports Complex_Main "HOL-Library.Char_ord" "HOL-Library.List_Lexorder" "HOL-Library.Multiset"
    "HOL-Library.Sublist"
begin

section \<open>Python values, errors and iterables\<close>

text \<open>
  The exceptions the modelled code raises.  \<open>Raised\<close> stands for an exception that
  comes out of a collaborator outside the repository (Python's \<^verbatim>\<open>eval\<close>, a
  registered stage function).
\<close>

datatype pyerr = KeyError | ValueError | AttributeError | TypeError | Raised string

text \<open>Field values of a document.  A float is modelled by the real number it denotes.\<close>

datatype pyval = PNone | PBool bool | PInt int | PFloat real | PStr string

text \<open>Python truthiness, as used by \<^verbatim>\<open>if eval(...)\<close>.\<close>

fun truthy :: "pyval \<Rightarrow> bool" where
  "truthy PNone = False"
| "truthy (PBool b) = b"
| "truthy (PInt i) = (i \<noteq> 0)"
| "truthy (PFloat x) = (x \<noteq> 0)"
| "truthy (PStr s) = (s \<noteq> [])"

text \<open>
  A generator object is the finite sequence of items it still has to yield, followed by
  normal exhaustion (\<open>None\<close>) or by an exception raised from its body.
\<close>

datatype 'a gen = Gen (gen_items: "'a list") (gen_raises: "pyerr option")

fun yield :: "'a \<Rightarrow> 'a gen \<Rightarrow> 'a gen" where
  "yield x (Gen xs e) = Gen (x # xs) e"

text \<open>
  The values handed to a stage table: a generator (\<^verbatim>\<open>types.GeneratorType\<close>), a
  one-shot iterator of another type (\<^verbatim>\<open>iter(...)\<close>, \<^verbatim>\<open>itertools\<close> objects),
  or a list, which can be iterated again and again.
\<close>

datatype 'a pyobj = GenObj "'a gen" | IterObj "'a list" | ListObj "'a list"

text \<open>
  Iterating an object to its end (\<^verbatim>\<open>list(obj)\<close>): the items obtained or the
  exception raised, and the object as it is afterwards.  A generator and an iterator are
  exhausted by it, a list is not.
\<close>

fun iterate :: "'a pyobj \<Rightarrow> (pyerr + 'a list) \<times> 'a pyobj" where
  "iterate (GenObj (Gen xs None)) = (Inr xs, GenObj (Gen [] None))"
| "iterate (GenObj (Gen xs (Some e))) = (Inl e, GenObj (Gen [] None))"
| "iterate (IterObj xs) = (Inr xs, IterObj [])"
| "iterate (ListObj xs) = (Inr xs, ListObj xs)"

section \<open>The in-memory store (fileio/out\_memory.py)\<close>

subsection \<open>GreedyDict\<close>

text \<open>
  \<^verbatim>\<open>
  class GreedyDict(dict):
      def __setitem__(self, key, value):
          if isinstance(value, types.GeneratorType):
              value = [val for val in value]
          super(GreedyDict, self).__setitem__(key, value)
  \<close>
  A table maps fingerprints to stored objects.  An exception raised while the generator
  is consumed leaves the table as it was.
\<close>

type_synonym 'a table = "string \<rightharpoonup> 'a pyobj"

fun setitem :: "'a table \<Rightarrow> string \<Rightarrow> 'a pyobj \<Rightarrow> pyerr + 'a table" where
  "setitem d key (GenObj (Gen xs None)) = Inr (d(key \<mapsto> ListObj xs))"
| "setitem d key (GenObj (Gen xs (Some e))) = Inl e"
| "setitem d key (IterObj xs) = Inr (d(key \<mapsto> IterObj xs))"
| "setitem d key (ListObj xs) = Inr (d(key \<mapsto> ListObj xs))"

text \<open>
  Reading the artifact stored under a key and iterating it: \<^verbatim>\<open>list(d[key])\<close>.
  The stored object is the one that is iterated, so the table afterwards holds it as the
  iteration left it.
\<close>

definition read_artifact :: "'a table \<Rightarrow> string \<Rightarrow> (pyerr + 'a list) \<times> 'a table" where
  "read_artifact d key =
     (case d key of
        None \<Rightarrow> (Inl KeyError, d)
      | Some obj \<Rightarrow> (fst (iterate obj), d(key \<mapsto> snd (iterate obj))))"

subsection \<open>Corpus and documents\<close>

text \<open>
  A document is a dict from field names to values; an item of the imported iterable is a
  document or a plain string (\<^verbatim>\<open>basestring\<close>).  A corpus entry is the dict
  \<^verbatim>\<open>{"_source": item}\<close>.  The corpus dict is an association list with distinct
  keys, in the dict's iteration order.
\<close>

type_synonym document = "(string \<times> pyval) list"

datatype item = Doc document | Text string

type_synonym entry = "(string \<times> document) list"

type_synonym corpus_dict = "(int \<times> entry) list"

fun corpus_set :: "corpus_dict \<Rightarrow> int \<Rightarrow> entry \<Rightarrow> corpus_dict" where
  "corpus_set [] k v = [(k, v)]"
| "corpus_set ((k', v') # rest) k v =
     (if k' = k then (k, v) # rest else (k', v') # corpus_set rest k v)"

text \<open>
  \<^verbatim>\<open>
  def import_from_iterable(self, iterable, field_to_hash):
      if field_to_hash:
          self.hash_field=field_to_hash
          for item in iterable:
              if isinstance(item, basestring):
                  item = {field_to_hash: item}
              id = hash(item[field_to_hash])
              self.corpus[id] = {"_source": item}
      else:
          raise ValueError("A field_to_hash is required for import_from_iterable")
  \<close>
  Python's \<^verbatim>\<open>hash\<close> is the parameter \<open>hash_fn\<close>.  The loop is \<open>import_items\<close>;
  the corpus that a raise leaves half filled is not returned.
\<close>

fun import_items :: "(pyval \<Rightarrow> int) \<Rightarrow> string \<Rightarrow> corpus_dict \<Rightarrow> item list \<Rightarrow> pyerr + corpus_dict" where
  "import_items hash_fn field c [] = Inr c"
| "import_items hash_fn field c (Text s # rest) =
     import_items hash_fn field
       (corpus_set c (hash_fn (PStr s)) [(''_source'', [(field, PStr s)])]) rest"
| "import_items hash_fn field c (Doc d # rest) =
     (case map_of d field of
        None \<Rightarrow> Inl KeyError
      | Some v \<Rightarrow> import_items hash_fn field (corpus_set c (hash_fn v) [(''_source'', d)]) rest)"

definition import_from_iterable ::
  "(pyval \<Rightarrow> int) \<Rightarrow> corpus_dict \<Rightarrow> item pyobj \<Rightarrow> string option \<Rightarrow> pyerr + (corpus_dict \<times> string)" where
  "import_from_iterable hash_fn c iterable field_to_hash =
     (case field_to_hash of
        None \<Rightarrow> Inl ValueError
      | Some field \<Rightarrow>
          if field = [] then Inl ValueError
          else (case fst (iterate iterable) of
                  Inl e \<Rightarrow> Inl e
                | Inr items \<Rightarrow>
                    (case import_items hash_fn field c items of
                       Inl e \<Rightarrow> Inl e
                     | Inr c' \<Rightarrow> Inr (c', field))))"

text \<open>
  The \<^verbatim>\<open>corpus\<close> attribute of the store holds the GreedyDict that
  \<^verbatim>\<open>InMemoryOutput.__init__\<close> creates, or whatever object is assigned to it later.
\<close>

datatype corpus_obj = CorpusDict corpus_dict | CorpusRaw "item pyobj"

subsection \<open>Filtered views\<close>

text \<open>\<^verbatim>\<open>doc["_source"][field_to_get]\<close>; the field name may be \<^verbatim>\<open>None\<close>, which is
  no key of a document.\<close>

definition source_field :: "entry \<Rightarrow> string option \<Rightarrow> pyerr + pyval" where
  "source_field doc field_to_get =
     (case map_of doc ''_source'' of
        None \<Rightarrow> Inl KeyError
      | Some src \<Rightarrow>
          (case field_to_get of
             None \<Rightarrow> Inl KeyError
           | Some f \<Rightarrow> (case map_of src f of None \<Rightarrow> Inl KeyError | Some v \<Rightarrow> Inr v)))"

text \<open>
  \<^verbatim>\<open>
  def get_filtered_data(self, field_to_get, filter=""):
      if not filter:
          for doc_id, doc in self.corpus.items():
              yield doc_id, doc["_source"][field_to_get]
      else:
          for doc_id, doc in self.corpus.items():
              if eval(filter.format(doc)):
                  yield doc_id, doc["_source"][field_to_get]
  \<close>
  Python's \<^verbatim>\<open>eval\<close> and \<^verbatim>\<open>str.format\<close> (with the \<^verbatim>\<open>repr\<close> of the entry)
  are the parameters \<open>ev\<close> and \<open>fmt\<close>.  The two loops are \<open>all_entries\<close> and
  \<open>matching_entries\<close>.  An object without \<^verbatim>\<open>items\<close> raises AttributeError when
  the generator is first advanced.
\<close>

type_synonym evaluator = "string \<Rightarrow> pyerr + pyval"

type_synonym formatter = "string \<Rightarrow> entry \<Rightarrow> pyerr + string"

fun all_entries :: "corpus_dict \<Rightarrow> string option \<Rightarrow> (int \<times> pyval) gen" where
  "all_entries [] field_to_get = Gen [] None"
| "all_entries ((doc_id, doc) # rest) field_to_get =
     (case source_field doc field_to_get of
        Inl e \<Rightarrow> Gen [] (Some e)
      | Inr v \<Rightarrow> yield (doc_id, v) (all_entries rest field_to_get))"

fun matching_entries ::
  "evaluator \<Rightarrow> formatter \<Rightarrow> corpus_dict \<Rightarrow> string option \<Rightarrow> string \<Rightarrow> (int \<times> pyval) gen" where
  "matching_entries ev fmt [] field_to_get flt = Gen [] None"
| "matching_entries ev fmt ((doc_id, doc) # rest) field_to_get flt =
     (case fmt flt doc of
        Inl e \<Rightarrow> Gen [] (Some e)
      | Inr text \<Rightarrow>
          (case ev text of
             Inl e \<Rightarrow> Gen [] (Some e)
           | Inr r \<Rightarrow>
               if truthy r
               then (case source_field doc field_to_get of
                       Inl e \<Rightarrow> Gen [] (Some e)
                     | Inr v \<Rightarrow> yield (doc_id, v) (matching_entries ev fmt rest field_to_get flt))
               else matching_entries ev fmt rest field_to_get flt))"

definition get_filtered_data ::
  "evaluator \<Rightarrow> formatter \<Rightarrow> corpus_obj \<Rightarrow> string option \<Rightarrow> string option \<Rightarrow> (int \<times> pyval) gen" where
  "get_filtered_data ev fmt corpus field_to_get flt =
     (case corpus of
        CorpusRaw obj \<Rightarrow> Gen [] (Some AttributeError)
      | CorpusDict c \<Rightarrow>
          (case flt of
             None \<Rightarrow> all_entries c field_to_get
           | Some text \<Rightarrow>
               if text = [] then all_entries c field_to_get
               else matching_entries ev fmt c field_to_get text))"

text \<open>Decimal \<^verbatim>\<open>str\<close> of an integer.\<close>

fun str_nat :: "nat \<Rightarrow> string" where
  "str_nat n = (if n < 10 then [char_of (48 + n)] else str_nat (n div 10) @ [char_of (48 + n mod 10)])"

declare str_nat.simps [simp del]

definition str_int :: "int \<Rightarrow> string" where
  "str_int i = (if i < 0 then CHR ''-'' # str_nat (nat (- i)) else str_nat (nat i))"

text \<open>
  \<^verbatim>\<open>
  def get_date_filtered_data(self, field_to_get, start, end, filter_field="year"):
      return self.get_filtered_data(field_to_get,
                                    "{}<=int({}['_source']['{}'])<={}".format(start, "{}",
                                                                               filter_field, end))
  \<close>
  The first \<^verbatim>\<open>format\<close> fills the four fields of a fixed template, the second of
  them with the text \<^verbatim>\<open>{}\<close> again.
\<close>

definition date_filter_text :: "int \<Rightarrow> string \<Rightarrow> int \<Rightarrow> string" where
  "date_filter_text start filter_field end' =
     str_int start @ ''<=int('' @ ''{}'' @ ''['' @ [CHR 0x27] @ ''_source'' @ [CHR 0x27] @ '']['' @
     [CHR 0x27] @ filter_field @ [CHR 0x27] @ ''])<='' @ str_int end'"






section \<open>Parameter fingerprints (fileio/project.py)\<close>

text \<open>
  Keyword arguments are a Python dict with string keys: an association list in
  insertion order whose keys are distinct.  Formatting a value with
  \<^verbatim>\<open>'{}'.format(val)\<close> is Python's own \<^verbatim>\<open>str\<close>, the parameter \<open>str_of\<close>.
  \<^verbatim>\<open>
  def _get_parameters_string(**kwargs):
      id = ''.join('{}={}_'.format(key, val) for key, val in sorted(kwargs.items()))
      return id[:-1]
  \<close>
  With distinct keys, sorting the items sorts them by key.
\<close>

type_synonym 'v kwargs = "(string \<times> 'v) list"

definition format_item :: "('v \<Rightarrow> string) \<Rightarrow> string \<times> 'v \<Rightarrow> string" where
  "format_item str_of kv = fst kv @ ''='' @ str_of (snd kv) @ ''_''"

definition get_parameters_string :: "('v \<Rightarrow> string) \<Rightarrow> 'v kwargs \<Rightarrow> string" where
  "get_parameters_string str_of kwargs =
     butlast (concat (map (format_item str_of) (sort_key fst kwargs)))"

text \<open>The fingerprint of \<^verbatim>\<open>TopikProject.tokenize\<close>:
  \<^verbatim>\<open>"tk_{method}_{params}".format(method=method, params=_get_parameters_string(**kwargs))\<close>.\<close>

definition tokenize_parameter_string :: "('v \<Rightarrow> string) \<Rightarrow> string \<Rightarrow> 'v kwargs \<Rightarrow> string" where
  "tokenize_parameter_string str_of method kwargs =
     ''tk_'' @ method @ ''_'' @ get_parameters_string str_of kwargs"

text \<open>The fingerprint of \<^verbatim>\<open>TopikProject.transform\<close>:
  \<^verbatim>\<open>"_".join([self.tokenizer_id, "xform", method, _get_parameters_string(**kwargs)])\<close>.\<close>

definition transform_parameter_string ::
  "('v \<Rightarrow> string) \<Rightarrow> string \<Rightarrow> string \<Rightarrow> 'v kwargs \<Rightarrow> string" where
  "transform_parameter_string str_of prior method kwargs =
     prior @ ''_'' @ ''xform'' @ ''_'' @ method @ ''_'' @ get_parameters_string str_of kwargs"




section \<open>The vectorizer registry (vectorizers/\_registry.py)\<close>

text \<open>
  \<^verbatim>\<open>
  class VectorizerRegistry(dict):
      __shared_state = {}
      def __init__(self, *args, **kwargs):
          self.__dict__ = self.__shared_state
          super(VectorizerRegistry, self).__init__(*args, **kwargs)

  registered_vectorizers = VectorizerRegistry()
  register = partial(_base_register_decorator, registered_vectorizers)

  def vectorize(corpus, method="tfidf", **kwargs):
      return VectorizerRegistry()[method](corpus, **kwargs)
  \<close>
  An instance of a dict subclass has two stores: the items of the dict, which
  \<^verbatim>\<open>registry[name]\<close> reads and writes, and its attribute dictionary
  \<^verbatim>\<open>__dict__\<close>.  The constructor makes the class-level \<^verbatim>\<open>__shared_state\<close> the
  attribute dictionary of every instance; the items are those given to \<^verbatim>\<open>dict\<close>.
  A stage function takes the corpus and the keyword arguments.
\<close>

type_synonym ('c, 'k, 'r) stage_function = "'c \<Rightarrow> 'k \<Rightarrow> pyerr + 'r"

record ('c, 'k, 'r) registry_object =
  entries :: "string \<rightharpoonup> ('c, 'k, 'r) stage_function"
  attributes :: "string \<rightharpoonup> pyval"

record ('c, 'k, 'r) registry_module =
  shared_state :: "string \<rightharpoonup> pyval"
  registered_vectorizers :: "('c, 'k, 'r) registry_object"

definition VectorizerRegistry ::
  "(string \<rightharpoonup> pyval) \<Rightarrow> (string \<times> ('c, 'k, 'r) stage_function) list \<Rightarrow> ('c, 'k, 'r) registry_object" where
  "VectorizerRegistry shared args = \<lparr>entries = map_of args, attributes = shared\<rparr>"

text \<open>The module as it is once its top-level statements have run.\<close>

definition registry_module_loaded :: "('c, 'k, 'r) registry_module" where
  "registry_module_loaded =
     \<lparr>shared_state = Map.empty, registered_vectorizers = VectorizerRegistry Map.empty []\<rparr>"

text \<open>\<^verbatim>\<open>registry[method]\<close> on an instance.\<close>

definition lookup :: "('c, 'k, 'r) registry_object \<Rightarrow> string \<Rightarrow> pyerr + ('c, 'k, 'r) stage_function" where
  "lookup r name = (case entries r name of None \<Rightarrow> Inl KeyError | Some f \<Rightarrow> Inr f)"

definition vectorize :: "('c, 'k, 'r) registry_module \<Rightarrow> 'c \<Rightarrow> string \<Rightarrow> 'k \<Rightarrow> pyerr + 'r" where
  "vectorize m corpus method kwargs =
     (case lookup (VectorizerRegistry (shared_state m) []) method of
        Inl e \<Rightarrow> Inl e
      | Inr f \<Rightarrow> f corpus kwargs)"

text \<open>
  Modelled from the spec: \<^verbatim>\<open>_base_register_decorator\<close> of
  \<^verbatim>\<open>topik/singleton_registry.py\<close> is not among the sources.  The spec's
  \<^verbatim>\<open>register(name, function)\<close> adds an entry and fails with DuplicateNameError if the
  name is already registered; \<^verbatim>\<open>register\<close> is bound to the module-level instance
  \<^verbatim>\<open>registered_vectorizers\<close>.
\<close>

definition register ::
  "('c, 'k, 'r) registry_module \<Rightarrow> string \<Rightarrow> ('c, 'k, 'r) stage_function \<Rightarrow> pyerr + ('c, 'k, 'r) registry_module" where
  "register m name f =
     (case entries (registered_vectorizers m) name of
        Some g \<Rightarrow> Inl (Raised ''DuplicateNameError'')
      | None \<Rightarrow>
          Inr (m\<lparr>registered_vectorizers :=
                   (registered_vectorizers m)\<lparr>entries := (entries (registered_vectorizers m))(name \<mapsto> f)\<rparr>\<rparr>))"

section \<open>The project (fileio/project.py)\<close>

subsection \<open>The store as the project sees it\<close>

text \<open>
  \<^verbatim>\<open>
  class InMemoryOutput(OutputInterface):
      def __init__(self, iterable=None, hash_field=None, tokenized_corpora=None,
                   vectorized_corpora=None, modeled_corpora=None):
          super(InMemoryOutput, self).__init__()
          self.corpus = GreedyDict()
          if iterable:
              self.import_from_iterable(iterable, hash_field)
          self.tokenized_corpora = tokenized_corpora if tokenized_corpora else GreedyDict()
          self.vectorized_corpora = vectorized_corpora if vectorized_corpora else GreedyDict()
          self.modeled_corpora = modeled_corpora if modeled_corpora else GreedyDict()
  \<close>
  The project reads the tables of the store by attribute name, so the store keeps them in
  a map from attribute name to table; each attribute holds a table of its own.  A table
  handed to the constructor is kept as it is and is taken to be a GreedyDict.
  \<^verbatim>\<open>OutputInterface\<close> (\<^verbatim>\<open>fileio/base_output.py\<close>) is not among the sources:
  the table attributes it provides are the parameter \<open>base\<close>.
\<close>

record 'a memory_output =
  corpus :: corpus_obj
  hash_field :: "string option"
  tables :: "string \<rightharpoonup> 'a table"

fun nonempty :: "'b pyobj \<Rightarrow> bool" where
  "nonempty (ListObj xs) = (xs \<noteq> [])"
| "nonempty (GenObj g) = True"
| "nonempty (IterObj xs) = True"

definition table_or_new :: "'a table option \<Rightarrow> 'a table" where
  "table_or_new t = (case t of None \<Rightarrow> Map.empty | Some d \<Rightarrow> d)"

definition InMemoryOutput ::
  "(pyval \<Rightarrow> int) \<Rightarrow> (string \<rightharpoonup> 'a table) \<Rightarrow> item pyobj option \<Rightarrow> string option \<Rightarrow>
   'a table option \<Rightarrow> 'a table option \<Rightarrow> 'a table option \<Rightarrow> pyerr + 'a memory_output" where
  "InMemoryOutput hash_fn base iterable hash_field' tokenized_corpora vectorized_corpora modeled_corpora =
     (let new_tables = base(''tokenized_corpora'' \<mapsto> table_or_new tokenized_corpora,
                            ''vectorized_corpora'' \<mapsto> table_or_new vectorized_corpora,
                            ''modeled_corpora'' \<mapsto> table_or_new modeled_corpora)
      in case iterable of
           None \<Rightarrow> Inr \<lparr>corpus = CorpusDict [], hash_field = None, tables = new_tables\<rparr>
         | Some it \<Rightarrow>
             if nonempty it
             then (case import_from_iterable hash_fn [] it hash_field' of
                     Inl e \<Rightarrow> Inl e
                   | Inr (c, field) \<Rightarrow>
                       Inr \<lparr>corpus = CorpusDict c, hash_field = Some field, tables = new_tables\<rparr>)
             else Inr \<lparr>corpus = CorpusDict [], hash_field = None, tables = new_tables\<rparr>)"

text \<open>\<^verbatim>\<open>self.output.<name>\<close> for a table attribute.\<close>

definition output_attr :: "'a memory_output \<Rightarrow> string \<Rightarrow> pyerr + 'a table" where
  "output_attr out name = (case tables out name of None \<Rightarrow> Inl AttributeError | Some t \<Rightarrow> Inr t)"

subsection \<open>TopikProject\<close>

text \<open>
  \<^verbatim>\<open>
  def __init__(self, output_type, output_args, **kwargs):
      self.output = registered_outputs[output_type](**output_args)
      self.corpus_filter = None
      self._tokenizer_id = None
      self._vectorizer_id = None
      self._model_id = None
  \<close>
  The field \<open>output_of\<close> is the attribute \<^verbatim>\<open>output\<close>.
  The fields \<open>priv_tokenizer_id\<close>, \<open>priv_vectorizer_id\<close> and \<open>priv_model_id\<close> are the
  attributes \<^verbatim>\<open>_tokenizer_id\<close>, \<^verbatim>\<open>_vectorizer_id\<close> and \<^verbatim>\<open>_model_id\<close>.  The
  attributes \<^verbatim>\<open>selected_tokenizer\<close>, \<^verbatim>\<open>selected_vectorizer\<close> and
  \<^verbatim>\<open>selected_model\<close> do not exist until a select method assigns them.
\<close>

record 'a project =
  output_of :: "'a memory_output"
  corpus_filter :: "string option"
  priv_tokenizer_id :: "string option"
  priv_vectorizer_id :: "string option"
  priv_model_id :: "string option"
  selected_tokenizer :: "string option"
  selected_vectorizer :: "string option"
  selected_model :: "string option"

definition TopikProject :: "'a memory_output \<Rightarrow> 'a project" where
  "TopikProject out =
     \<lparr>output_of = out, corpus_filter = None,
      priv_tokenizer_id = None, priv_vectorizer_id = None, priv_model_id = None,
      selected_tokenizer = None, selected_vectorizer = None, selected_model = None\<rparr>"

text \<open>
  Reading an attribute of the project other than \<^verbatim>\<open>output\<close>.  The class and its
  methods define no further attribute but those listed here; the three that the select
  methods assign do not exist before.
\<close>

definition assigned :: "string option \<Rightarrow> pyerr + string option" where
  "assigned v = (case v of None \<Rightarrow> Inl AttributeError | Some s \<Rightarrow> Inr (Some s))"

definition project_attr :: "'a project \<Rightarrow> string \<Rightarrow> pyerr + string option" where
  "project_attr p name =
     (if name = ''corpus_filter'' then Inr (corpus_filter p)
      else if name = ''_tokenizer_id'' then Inr (priv_tokenizer_id p)
      else if name = ''_vectorizer_id'' then Inr (priv_vectorizer_id p)
      else if name = ''_model_id'' then Inr (priv_model_id p)
      else if name = ''selected_tokenizer'' then assigned (selected_tokenizer p)
      else if name = ''selected_vectorizer'' then assigned (selected_vectorizer p)
      else if name = ''selected_model'' then assigned (selected_model p)
      else Inl AttributeError)"

text \<open>
  \<^verbatim>\<open>
  def read_input(self, source, content_field, source_type="auto", **kwargs):
      self.output.corpus = read_input(source, content_field=content_field,
                                      source_type=source_type, **kwargs)
  \<close>
  The reader \<^verbatim>\<open>fileio._registry.read_input\<close> is a collaborator; its result, an
  iterable of items or an exception, is the argument \<open>reader_result\<close>.
\<close>

definition read_input :: "'a project \<Rightarrow> pyerr + item pyobj \<Rightarrow> pyerr + 'a project" where
  "read_input p reader_result =
     (case reader_result of
        Inl e \<Rightarrow> Inl e
      | Inr obj \<Rightarrow> Inr (p\<lparr>output_of := (output_of p)\<lparr>corpus := CorpusRaw obj\<rparr>\<rparr>))"

text \<open>
  \<^verbatim>\<open>
  @property
  def filtered_corpus(self):
      return self.output.get_filtered_data(self.corpus_filter)
  \<close>
  The one argument is \<^verbatim>\<open>field_to_get\<close>; \<^verbatim>\<open>filter\<close> keeps its default, the empty
  string.
\<close>

definition filtered_corpus :: "evaluator \<Rightarrow> formatter \<Rightarrow> 'a project \<Rightarrow> (int \<times> pyval) gen" where
  "filtered_corpus ev fmt p =
     get_filtered_data ev fmt (corpus (output_of p)) (corpus_filter p) (Some [])"

text \<open>
  \<^verbatim>\<open>
  def tokenize(self, method, **kwargs):
      tokenized_data = tokenizers.tokenize(self.filtered_corpus, method=method, **kwargs)
      tokenize_parameter_string="tk_{method}_{params}".format(
          method=method, params=_get_parameters_string(**kwargs))
      self.output.token_data[tokenize_parameter_string] = tokenized_data
      self._tokenizer_id = tokenize_parameter_string
  \<close>
  \<^verbatim>\<open>tokenizers.tokenize\<close>, the dispatch through the tokenizer registry, is the
  parameter \<open>tk\<close>.
\<close>

type_synonym ('v, 'a) tokenizer = "(int \<times> pyval) gen \<Rightarrow> string \<Rightarrow> 'v kwargs \<Rightarrow> pyerr + 'a pyobj"

definition tokenize ::
  "evaluator \<Rightarrow> formatter \<Rightarrow> ('v \<Rightarrow> string) \<Rightarrow> ('v, 'a) tokenizer \<Rightarrow> 'a project \<Rightarrow> string \<Rightarrow> 'v kwargs \<Rightarrow>
   pyerr + 'a project" where
  "tokenize ev fmt str_of tk p method kwargs =
     (case tk (filtered_corpus ev fmt p) method kwargs of
        Inl e \<Rightarrow> Inl e
      | Inr tokenized \<Rightarrow>
          (case output_attr (output_of p) ''token_data'' of
             Inl e \<Rightarrow> Inl e
           | Inr t \<Rightarrow>
               (case setitem t (tokenize_parameter_string str_of method kwargs) tokenized of
                  Inl e \<Rightarrow> Inl e
                | Inr t' \<Rightarrow>
                    Inr (p\<lparr>output_of := (output_of p)\<lparr>tables := (tables (output_of p))(''token_data'' \<mapsto> t')\<rparr>,
                           priv_tokenizer_id := Some (tokenize_parameter_string str_of method kwargs)\<rparr>))))"

text \<open>
  \<^verbatim>\<open>
  def transform(self, method, **kwargs):
      transformed_data = transformers.transform(method=method, **kwargs)
      tokenize_parameter_string = "_".join([self.tokenizer_id, "xform", method,
                                            _get_parameters_string(**kwargs)])
      self.output.tokenized_data[tokenize_parameter_string] = transformed_data
      self._tokenizer_id = tokenize_parameter_string
  \<close>
  \<^verbatim>\<open>transformers.transform\<close> is the parameter \<open>xf\<close>; it is given the method and the
  keyword arguments only.  Joining \<^verbatim>\<open>None\<close> raises TypeError.
\<close>

type_synonym ('v, 'a) transformer = "string \<Rightarrow> 'v kwargs \<Rightarrow> pyerr + 'a pyobj"

definition transform ::
  "('v \<Rightarrow> string) \<Rightarrow> ('v, 'a) transformer \<Rightarrow> 'a project \<Rightarrow> string \<Rightarrow> 'v kwargs \<Rightarrow> pyerr + 'a project" where
  "transform str_of xf p method kwargs =
     (case xf method kwargs of
        Inl e \<Rightarrow> Inl e
      | Inr transformed \<Rightarrow>
          (case project_attr p ''tokenizer_id'' of
             Inl e \<Rightarrow> Inl e
           | Inr None \<Rightarrow> Inl TypeError
           | Inr (Some prior) \<Rightarrow>
               (case output_attr (output_of p) ''tokenized_data'' of
                  Inl e \<Rightarrow> Inl e
                | Inr t \<Rightarrow>
                    (case setitem t (transform_parameter_string str_of prior method kwargs) transformed of
                       Inl e \<Rightarrow> Inl e
                     | Inr t' \<Rightarrow>
                         Inr (p\<lparr>output_of := (output_of p)\<lparr>tables := (tables (output_of p))(''tokenized_data'' \<mapsto> t')\<rparr>,
                                priv_tokenizer_id :=
                                  Some (transform_parameter_string str_of prior method kwargs)\<rparr>)))))"

text \<open>
  \<^verbatim>\<open>
  def select_tokenized_data(self, id):
      if id in self.tokenizer_ids:
          self.selected_tokenizer = id
      else:
          raise ValueError("tokenized data {} not found in storage.".format(id))

  def select_vectorized_data(self, id):
      if id in self.output.vectorized_data:
          self.selected_vectorizer = id
      else:
          raise ValueError("vectorized data {} not found in storage.".format(id))

  def select_model_data(self, id):
      if id in self.output.model_data:
          self.selected_model = id
      else:
          raise ValueError("model {} not found in storage.".format(id))
  \<close>
  \<^verbatim>\<open>in\<close> on a string is the substring test, on \<^verbatim>\<open>None\<close> a TypeError.
\<close>

definition select_tokenized_data :: "'a project \<Rightarrow> string \<Rightarrow> pyerr + 'a project" where
  "select_tokenized_data p ident =
     (case project_attr p ''tokenizer_ids'' of
        Inl e \<Rightarrow> Inl e
      | Inr None \<Rightarrow> Inl TypeError
      | Inr (Some ids) \<Rightarrow>
          if sublist ident ids then Inr (p\<lparr>selected_tokenizer := Some ident\<rparr>) else Inl ValueError)"

definition select_vectorized_data :: "'a project \<Rightarrow> string \<Rightarrow> pyerr + 'a project" where
  "select_vectorized_data p ident =
     (case output_attr (output_of p) ''vectorized_data'' of
        Inl e \<Rightarrow> Inl e
      | Inr t \<Rightarrow>
          if ident \<in> dom t then Inr (p\<lparr>selected_vectorizer := Some ident\<rparr>) else Inl ValueError)"

definition select_model_data :: "'a project \<Rightarrow> string \<Rightarrow> pyerr + 'a project" where
  "select_model_data p ident =
     (case output_attr (output_of p) ''model_data'' of
        Inl e \<Rightarrow> Inl e
      | Inr t \<Rightarrow>
          if ident \<in> dom t then Inr (p\<lparr>selected_model := Some ident\<rparr>) else Inl ValueError)"

text \<open>
  \<^verbatim>\<open>
  @property
  def tokenized_data(self):
      return self.output.tokenized_data[self._tokenizer_id]
  @property
  def vectorized_data(self):
      return self.output.vectorized_data[self._vectorizer_id]
  @property
  def model_output(self):
      return self.output.model_data[self._model_id]
  \<close>
  \<^verbatim>\<open>None\<close> is the key of no artifact.
\<close>

definition getitem :: "'a table \<Rightarrow> string option \<Rightarrow> pyerr + 'a pyobj" where
  "getitem t key =
     (case key of
        None \<Rightarrow> Inl KeyError
      | Some k \<Rightarrow> (case t k of None \<Rightarrow> Inl KeyError | Some obj \<Rightarrow> Inr obj))"

definition selected :: "'a memory_output \<Rightarrow> string \<Rightarrow> string option \<Rightarrow> pyerr + 'a pyobj" where
  "selected out name key = (case output_attr out name of Inl e \<Rightarrow> Inl e | Inr t \<Rightarrow> getitem t key)"

definition tokenized_data :: "'a project \<Rightarrow> pyerr + 'a pyobj" where
  "tokenized_data p = selected (output_of p) ''tokenized_data'' (priv_tokenizer_id p)"

definition vectorized_data :: "'a project \<Rightarrow> pyerr + 'a pyobj" where
  "vectorized_data p = selected (output_of p) ''vectorized_data'' (priv_vectorizer_id p)"

definition model_output :: "'a project \<Rightarrow> pyerr + 'a pyobj" where
  "model_output p = selected (output_of p) ''model_data'' (priv_model_id p)"

section \<open>Reading the filtered views\<close>

text \<open>Whether an entry has the requested field, and the value it has there.\<close>

definition has_field :: "entry \<Rightarrow> string option \<Rightarrow> bool" where
  "has_field doc field_to_get = (case source_field doc field_to_get of Inl e \<Rightarrow> False | Inr v \<Rightarrow> True)"

definition field_value :: "entry \<Rightarrow> string option \<Rightarrow> pyval" where
  "field_value doc field_to_get = (case source_field doc field_to_get of Inl e \<Rightarrow> PNone | Inr v \<Rightarrow> v)"

definition pairs :: "string option \<Rightarrow> corpus_dict \<Rightarrow> (int \<times> pyval) list" where
  "pairs field_to_get c = map (\<lambda>kv. (fst kv, field_value (snd kv) field_to_get)) c"





section \<open>Sample data\<close>

text \<open>
  The corpus of the end-to-end scenario,
  \<^verbatim>\<open>[{"id":"a","text":"cat dog","year":2000}, {"id":"b","text":"cat fish","year":2010}]\<close>,
  under the identifiers 101 and 102, and a third document whose year is 2005.5.
\<close>

definition doc_a :: document where
  "doc_a = [(''id'', PStr ''a''), (''text'', PStr ''cat dog''), (''year'', PInt 2000)]"

definition doc_b :: document where
  "doc_b = [(''id'', PStr ''b''), (''text'', PStr ''cat fish''), (''year'', PInt 2010)]"

definition doc_c :: document where
  "doc_c = [(''id'', PStr ''c''), (''text'', PStr ''cat nap''), (''year'', PFloat 2005.5)]"

definition sample_corpus :: corpus_dict where
  "sample_corpus = [(101, [(''_source'', doc_a)]), (102, [(''_source'', doc_b)])]"


text \<open>
  A formatter and an interpreter for the sample entries.  \<open>fill\<close> puts a text in the
  place of the first \<^verbatim>\<open>{}\<close>; \<open>sample_repr\<close> is the \<^verbatim>\<open>repr\<close> of a sample entry, with
  \<open>quote\<close> the quote character; \<open>sample_ev\<close> gives the value that Python gives to each of the
  three texts the date filter from 2000 to 2005 produces, \<^verbatim>\<open>int(2005.5)\<close> being 2005.
\<close>

fun fill :: "string \<Rightarrow> string \<Rightarrow> string" where
  "fill (c # d # rest) r = (if c = CHR ''{'' \<and> d = CHR ''}'' then r @ rest else c # fill (d # rest) r)"
| "fill [c] r = [c]"
| "fill [] r = []"

definition quote :: string where
  "quote = [CHR 0x27]"

definition sample_repr :: "entry \<Rightarrow> string" where
  "sample_repr doc =
     (if doc = [(''_source'', doc_a)]
      then ''{'' @ quote @ ''_source'' @ quote @ '': {'' @ quote @ ''id'' @ quote @ '': '' @ quote @ ''a'' @ quote @ '', '' @
           quote @ ''text'' @ quote @ '': '' @ quote @ ''cat dog'' @ quote @ '', '' @ quote @ ''year'' @ quote @ '': 2000}}''
      else if doc = [(''_source'', doc_b)]
      then ''{'' @ quote @ ''_source'' @ quote @ '': {'' @ quote @ ''id'' @ quote @ '': '' @ quote @ ''b'' @ quote @ '', '' @
           quote @ ''text'' @ quote @ '': '' @ quote @ ''cat fish'' @ quote @ '', '' @ quote @ ''year'' @ quote @ '': 2010}}''
      else ''{'' @ quote @ ''_source'' @ quote @ '': {'' @ quote @ ''id'' @ quote @ '': '' @ quote @ ''c'' @ quote @ '', '' @
           quote @ ''text'' @ quote @ '': '' @ quote @ ''cat nap'' @ quote @ '', '' @ quote @ ''year'' @ quote @ '': 2005.5}}'')"

definition sample_fmt :: formatter where
  "sample_fmt flt doc = Inr (fill flt (sample_repr doc))"

definition sample_ev :: evaluator where
  "sample_ev text =
     (if text = fill (date_filter_text 2000 ''year'' 2005) (sample_repr [(''_source'', doc_a)])
      then Inr (PBool True)
      else if text = fill (date_filter_text 2000 ''year'' 2005) (sample_repr [(''_source'', doc_b)])
      then Inr (PBool False)
      else if text = fill (date_filter_text 2000 ''year'' 2005) (sample_repr [(''_source'', doc_c)])
      then Inr (PBool True)
      else Inl (Raised ''SyntaxError''))"

text \<open>
  A store that offers every table attribute the project reads, holding two vectorized
  artifacts and two models, and a project on it.  \<open>sample_hash\<close> gives the identifiers of
  the sample documents.  \<open>lazy_tokenizer\<close> tokenizes document by document as its input is
  consumed, so an exception of the input generator is one of its output;
  \<open>ready_tokenizer\<close> returns a finished generator whatever its input.
\<close>

definition sample_hash :: "pyval \<Rightarrow> int" where
  "sample_hash v = (if v = PStr ''a'' then 101 else if v = PStr ''b'' then 102 else 103)"

definition sample_store :: "string list memory_output" where
  "sample_store =
     \<lparr>corpus = CorpusDict sample_corpus, hash_field = Some ''id'',
      tables = [''token_data'' \<mapsto> Map.empty,
                ''tokenized_data'' \<mapsto> Map.empty,
                ''vectorized_data'' \<mapsto> [''tfidf_'' \<mapsto> ListObj [[''0.5'']], ''bow_'' \<mapsto> ListObj [[''1'']]],
                ''model_data'' \<mapsto> [''lda_'' \<mapsto> ListObj [[''t1'']], ''plsa_'' \<mapsto> ListObj [[''t2'']]]]\<rparr>"

definition sample_project :: "string list project" where
  "sample_project = (TopikProject sample_store)\<lparr>priv_vectorizer_id := Some ''tfidf_'', priv_model_id := Some ''lda_''\<rparr>"

definition lazy_tokenizer :: "(int \<times> pyval \<Rightarrow> 'a) \<Rightarrow> ('v, 'a) tokenizer" where
  "lazy_tokenizer f g method kwargs = Inr (GenObj (Gen (map f (gen_items g)) (gen_raises g)))"

definition ready_tokenizer :: "'a list \<Rightarrow> ('v, 'a) tokenizer" where
  "ready_tokenizer tokens g method kwargs = Inr (GenObj (Gen tokens None))"

section \<open>Fingerprints\<close>

















section \<open>Materialization on write\<close>

text \<open>
  C3, as amended.  A generator object stored under a key in a GreedyDict is consumed
  into a list before the assignment returns: the table then holds the list of the
  generator's values, and reading the stored artifact twice yields these values both
  times, in the same order.
\<close>

theorem setitem_generator_materialized:
  "\<exists>d'. setitem d key (GenObj (Gen xs None)) = Inr d' \<and>
        d' key = Some (ListObj xs) \<and>
        fst (read_artifact d' key) = Inr xs \<and>
        fst (read_artifact (snd (read_artifact d' key)) key) = Inr xs"
  by (simp add: read_artifact_def)

text \<open>
  C3 as stated fails for a one-shot iterator that is no generator object: it is stored as
  it is, the first read yields its values and the second read yields nothing.
\<close>

theorem setitem_iterator_counterexample:
  "setitem Map.empty ''tk_simple_'' (IterObj [''cat'', ''dog'']) =
     Inr [''tk_simple_'' \<mapsto> IterObj [''cat'', ''dog'']] \<and>
   fst (read_artifact [''tk_simple_'' \<mapsto> IterObj [''cat'', ''dog'']] ''tk_simple_'') =
     Inr [''cat'', ''dog''] \<and>
   fst (read_artifact (snd (read_artifact [''tk_simple_'' \<mapsto> IterObj [''cat'', ''dog'']] ''tk_simple_''))
          ''tk_simple_'') = Inr []"
  by (simp add: read_artifact_def)

section \<open>Filtered views\<close>

lemma yield_Gen: "yield x g = Gen (x # gen_items g) (gen_raises g)"
  by (cases g) simp

lemma all_entries_pairs:
  "\<forall>kv \<in> set c. has_field (snd kv) field \<Longrightarrow> all_entries c field = Gen (pairs field c) None"
proof (induction c)
  case Nil
  then show ?case by (simp add: pairs_def)
next
  case (Cons kv c)
  obtain doc_id doc where kv: "kv = (doc_id, doc)" by (cases kv)
  from Cons.prems kv obtain v where v: "source_field doc field = Inr v"
    by (auto simp: has_field_def split: sum.splits)
  from Cons have "all_entries c field = Gen (pairs field c) None" by simp
  with kv v show ?case by (simp add: pairs_def field_value_def)
qed


text \<open>
  C10.  The empty string as filter behaves like no filter: neither the interpreter nor the
  formatter is consulted, and over a corpus whose entries all have the requested field the
  generator yields the pair of identifier and field value of every entry, in the order of
  the corpus, and then ends.
\<close>

theorem empty_filter_is_no_filter:
  assumes "\<forall>kv \<in> set c. has_field (snd kv) field"
  shows "get_filtered_data ev fmt cobj field (Some []) = get_filtered_data ev' fmt' cobj field None \<and>
         get_filtered_data ev fmt (CorpusDict c) field (Some []) = Gen (pairs field c) None"
  using all_entries_pairs[OF assms]
  by (simp add: get_filtered_data_def split: corpus_obj.splits)

theorem empty_filter_is_no_filter_witness:
  "get_filtered_data sample_ev sample_fmt (CorpusDict sample_corpus) (Some ''text'') (Some []) =
   Gen [(101, PStr ''cat dog''), (102, PStr ''cat fish'')] None"
  using empty_filter_is_no_filter [of sample_corpus "Some ''text''" sample_ev sample_fmt "CorpusDict sample_corpus"]
  by (simp add: sample_corpus_def doc_a_def doc_b_def has_field_def source_field_def pairs_def field_value_def)














section \<open>The registry\<close>

text \<open>
  C1 against the code.  Once \<^verbatim>\<open>tfidf\<close> is registered, the module-level instance finds
  the function, but \<^verbatim>\<open>vectorize\<close> looks it up in a fresh instance, whose items are
  empty, and raises KeyError; it does so for every method and every state of the module.
\<close>

theorem vectorize_misses_registered:
  "(\<exists>m'. register registry_module_loaded ''tfidf'' f = Inr m' \<and>
         lookup (registered_vectorizers m') ''tfidf'' = Inr f \<and>
         vectorize m' docs ''tfidf'' kwargs = Inl KeyError) \<and>
   vectorize m docs method kwargs = Inl KeyError"
  by (simp add: register_def registry_module_loaded_def VectorizerRegistry_def lookup_def vectorize_def)

section \<open>The project\<close>

text \<open>
  C2 against the code.  Selecting the stored vectorized artifact \<^verbatim>\<open>bow_\<close> succeeds and
  assigns \<^verbatim>\<open>selected_vectorizer\<close>, but the property reads \<^verbatim>\<open>_vectorizer_id\<close> and
  still resolves the artifact under \<^verbatim>\<open>tfidf_\<close>; the same holds for the model.
  Selecting tokenized data raises AttributeError for every project and identifier.
\<close>

theorem select_does_not_move_pointer:
  "\<not> isl (select_vectorized_data sample_project ''bow_'') \<and>
   selected_vectorizer (projr (select_vectorized_data sample_project ''bow_'')) = Some ''bow_'' \<and>
   priv_vectorizer_id (projr (select_vectorized_data sample_project ''bow_'')) = Some ''tfidf_'' \<and>
   vectorized_data (projr (select_vectorized_data sample_project ''bow_'')) = Inr (ListObj [[''0.5'']]) \<and>
   \<not> isl (select_model_data sample_project ''plsa_'') \<and>
   model_output (projr (select_model_data sample_project ''plsa_'')) = Inr (ListObj [[''t1'']]) \<and>
   select_tokenized_data p ident = Inl AttributeError"
  by (simp add: select_vectorized_data_def select_model_data_def select_tokenized_data_def
      project_attr_def output_attr_def sample_project_def sample_store_def TopikProject_def
      vectorized_data_def model_output_def selected_def getitem_def)

text \<open>
  C6 against the code.  \<^verbatim>\<open>read_input\<close> assigns the reader's iterable itself to the
  \<^verbatim>\<open>corpus\<close> attribute: the corpus is then no mapping, and the filtered view of it
  raises AttributeError.  \<^verbatim>\<open>import_from_iterable\<close>, which the constructor of the store
  uses, builds from the same iterable the mapping keyed by the hash of the hash field.
\<close>

theorem read_input_stores_raw_iterable:
  "\<not> isl (read_input (TopikProject sample_store) (Inr (ListObj [Doc doc_a, Doc doc_b]))) \<and>
   corpus (output_of (projr (read_input (TopikProject sample_store) (Inr (ListObj [Doc doc_a, Doc doc_b]))))) =
     CorpusRaw (ListObj [Doc doc_a, Doc doc_b]) \<and>
   filtered_corpus ev fmt (projr (read_input (TopikProject sample_store) (Inr (ListObj [Doc doc_a, Doc doc_b])))) =
     Gen [] (Some AttributeError) \<and>
   import_from_iterable sample_hash [] (ListObj [Doc doc_a, Doc doc_b]) (Some ''id'') =
     Inr (sample_corpus, ''id'')"
  by (simp add: read_input_def filtered_corpus_def get_filtered_data_def import_from_iterable_def
      sample_hash_def sample_corpus_def doc_a_def doc_b_def)

text \<open>
  C7 against the code.  The filtered corpus is requested with the corpus filter in the
  place of the field name, so over the sample corpus its generator raises KeyError and a
  tokenizer that consumes it makes \<^verbatim>\<open>tokenize\<close> fail.  With a tokenizer that returns its
  tokens all the same, the artifact is stored under \<^verbatim>\<open>tk_simple_\<close> in the table
  \<^verbatim>\<open>token_data\<close> and the pointer is set, but the property reads the table
  \<^verbatim>\<open>tokenized_data\<close> and raises KeyError.
\<close>

theorem tokenize_result_not_readable:
  "filtered_corpus ev fmt sample_project = Gen [] (Some KeyError) \<and>
   tokenize ev fmt (\<lambda>s. s) (lazy_tokenizer f) sample_project ''simple'' [] = Inl KeyError \<and>
   \<not> isl (tokenize ev fmt (\<lambda>s. s) (ready_tokenizer [[''cat'', ''dog''], [''cat'', ''fish'']]) sample_project ''simple'' []) \<and>
   priv_tokenizer_id (projr (tokenize ev fmt (\<lambda>s. s)
      (ready_tokenizer [[''cat'', ''dog''], [''cat'', ''fish'']]) sample_project ''simple'' [])) = Some ''tk_simple_'' \<and>
   selected (output_of (projr (tokenize ev fmt (\<lambda>s. s)
      (ready_tokenizer [[''cat'', ''dog''], [''cat'', ''fish'']]) sample_project ''simple'' [])))
      ''token_data'' (Some ''tk_simple_'') = Inr (ListObj [[''cat'', ''dog''], [''cat'', ''fish'']]) \<and>
   tokenized_data (projr (tokenize ev fmt (\<lambda>s. s)
      (ready_tokenizer [[''cat'', ''dog''], [''cat'', ''fish'']]) sample_project ''simple'' [])) = Inl KeyError"
  by (simp add: filtered_corpus_def get_filtered_data_def tokenize_def lazy_tokenizer_def
      ready_tokenizer_def output_attr_def sample_project_def sample_store_def TopikProject_def
      sample_corpus_def source_field_def tokenize_parameter_string_def get_parameters_string_def
      tokenized_data_def selected_def getitem_def)

text \<open>
  C8 against the code.  \<^verbatim>\<open>transform\<close> reads the attribute \<^verbatim>\<open>tokenizer_id\<close>, which no
  project has: it fails for every project, method and parameters, so it stores nothing
  and moves no pointer.
\<close>

theorem transform_always_fails:
  "(\<exists>e. transform str_of xf p method kwargs = Inl e) \<and>
   project_attr p ''tokenizer_id'' = Inl AttributeError \<and>
   transform (\<lambda>s. s) (\<lambda>method kwargs. Inr (ListObj [[''cat'']]))
     (sample_project\<lparr>priv_tokenizer_id := Some ''tk_simple_''\<rparr>) ''stem'' [] = Inl AttributeError"
  by (simp add: transform_def project_attr_def split: sum.splits)

text \<open>
  On the store as \<^verbatim>\<open>InMemoryOutput\<close> alone builds it, with no table attribute from the
  base class, the project finds none of the tables it reads.
\<close>

lemma bare_store_has_no_tables:
  "\<not> isl (InMemoryOutput sample_hash Map.empty (Some (ListObj [Doc doc_a, Doc doc_b])) (Some ''id'') None None None
           :: pyerr + string list memory_output) \<and>
   select_vectorized_data (TopikProject (projr (InMemoryOutput sample_hash Map.empty
      (Some (ListObj [Doc doc_a, Doc doc_b])) (Some ''id'') None None None
           :: pyerr + string list memory_output))) ident = Inl AttributeError \<and>
   tokenize ev fmt (\<lambda>s. s) (ready_tokenizer [[''cat'', ''dog''], [''cat'', ''fish'']])
     (TopikProject (projr (InMemoryOutput sample_hash Map.empty
      (Some (ListObj [Doc doc_a, Doc doc_b])) (Some ''id'') None None None
           :: pyerr + string list memory_output))) ''simple'' [] = Inl AttributeError"
  by (simp add: InMemoryOutput_def import_from_iterable_def sample_hash_def doc_a_def doc_b_def
      select_vectorized_data_def tokenize_def ready_tokenizer_def output_attr_def TopikProject_def
      table_or_new_def)

end
